theory Spec2Isabelle
  imports Main "HOL-Library.Word" "HOL-Library.Multiset"
begin

unbundle bit_operations_syntax

section \<open>Distributed file backup: the model of \<^verbatim>\<open>main.cpp\<close>\<close>

text \<open>
  The program splits a file into chunks of \<^verbatim>\<open>CHUNK_SIZE\<close> bytes, encrypts every chunk
  with AES-256-CBC (OpenSSL's EVP interface), assigns chunks to three storage providers
  round-robin, and queues one upload task per chunk for four worker threads. A SQLite
  catalog records files and uploaded chunks.

  Conventions of the model:
  \<^item> \<^verbatim>\<open>std::vector<unsigned char>\<close> is a list of 8-bit words;
  \<^item> \<^verbatim>\<open>size_t\<close> is an unsigned 64-bit integer, \<^verbatim>\<open>int\<close> a signed 32-bit one; both are
    modelled by \<open>nat\<close> and \<open>int\<close> with the wrap-around written out;
  \<^item> the block cipher behind \<^verbatim>\<open>EVP_aes_256_cbc()\<close> belongs to OpenSSL, not to the
    program: it is a parameter \<open>E\<close> (encryption of one 16-byte block under a key) with
    its inverse \<open>D\<close>;
  \<^item> the threads are interleaved at the granularity of their critical sections: one
    step of the main thread or of a worker is a function on the shared state, and a
    schedule is a list of thread names.
\<close>

subsection \<open>Bytes and machine integers\<close>

type_synonym byte = "8 word"
type_synonym bytes = "byte list"

text \<open>\<^verbatim>\<open>size_t\<close> arithmetic: results are reduced modulo \<open>2 ^ 64\<close>.\<close>

definition size_add :: "nat \<Rightarrow> nat \<Rightarrow> nat" where
  "size_add a b = (a + b) mod 2 ^ 64"

definition size_sub :: "nat \<Rightarrow> nat \<Rightarrow> nat" where
  "size_sub a b = (a + (2 ^ 64 - b mod 2 ^ 64)) mod 2 ^ 64"

definition size_mul :: "nat \<Rightarrow> nat \<Rightarrow> nat" where
  "size_mul a b = (a * b) mod 2 ^ 64"

text \<open>Conversion of a \<^verbatim>\<open>size_t\<close> to \<^verbatim>\<open>int\<close>: the low 32 bits, read as two's complement.\<close>

definition int_of_size_t :: "nat \<Rightarrow> int" where
  "int_of_size_t n = (let m = n mod 2 ^ 32 in if m < 2 ^ 31 then int m else int m - 2 ^ 32)"

text \<open>Conversion of an \<^verbatim>\<open>int\<close> to \<^verbatim>\<open>size_t\<close> (the usual arithmetic conversion).\<close>

definition size_of_int :: "int \<Rightarrow> nat" where
  "size_of_int i = nat (i mod 2 ^ 64)"

subsection \<open>Number formatting\<close>

definition hex_digit :: "nat \<Rightarrow> char" where
  "hex_digit d = ''0123456789abcdef'' ! d"

text \<open>\<^verbatim>\<open>ss << std::hex << sum\<close>: lower-case hexadecimal, no prefix, no leading zeros.\<close>

fun hex_of_nat :: "nat \<Rightarrow> string" where
  "hex_of_nat n =
     (if n < 16 then [hex_digit n] else hex_of_nat (n div 16) @ [hex_digit (n mod 16)])"

declare hex_of_nat.simps [simp del]

fun dec_of_nat :: "nat \<Rightarrow> string" where
  "dec_of_nat n =
     (if n < 10 then [hex_digit n] else dec_of_nat (n div 10) @ [hex_digit (n mod 10)])"

declare dec_of_nat.simps [simp del]

text \<open>\<^verbatim>\<open>std::to_string(int)\<close>.\<close>

definition to_string :: "int \<Rightarrow> string" where
  "to_string i = (if i < 0 then CHR ''-'' # dec_of_nat (nat (- i)) else dec_of_nat (nat i))"

subsection \<open>\<^verbatim>\<open>BackupSystem::calculateChecksum\<close>\<close>

text \<open>
  The loop \<^verbatim>\<open>for (auto byte : data) sum += byte;\<close> on a \<^verbatim>\<open>size_t\<close> accumulator,
  followed by the hexadecimal rendering of the sum.
\<close>

fun sum_loop :: "nat \<Rightarrow> bytes \<Rightarrow> nat" where
  "sum_loop s [] = s"
| "sum_loop s (b # bs) = sum_loop (size_add s (unat b)) bs"

definition calculateChecksum :: "bytes \<Rightarrow> string" where
  "calculateChecksum data = hex_of_nat (sum_loop 0 data)"

subsection \<open>OpenSSL's EVP cipher context, in CBC mode with PKCS#7 padding\<close>

text \<open>
  \<^verbatim>\<open>EVP_aes_256_cbc()\<close> is library code. Its documented behaviour is modelled here for
  an arbitrary block cipher on 16-byte blocks: \<open>E k b\<close> encrypts block \<open>b\<close> under key
  \<open>k\<close>, \<open>D k c\<close> decrypts. Padding is enabled (the default).
\<close>

type_synonym block_cipher = "bytes \<Rightarrow> bytes \<Rightarrow> bytes"

definition xor_bytes :: "bytes \<Rightarrow> bytes \<Rightarrow> bytes" where
  "xor_bytes a b = map2 (XOR) a b"

text \<open>CBC over the complete blocks of the input; a trailing partial block is ignored.\<close>

fun cbc_encrypt_blocks :: "block_cipher \<Rightarrow> bytes \<Rightarrow> bytes \<Rightarrow> bytes \<Rightarrow> bytes" where
  "cbc_encrypt_blocks E k prev xs =
     (if length xs < 16 then []
      else (let c = E k (xor_bytes (take 16 xs) prev)
            in c @ cbc_encrypt_blocks E k c (drop 16 xs)))"

declare cbc_encrypt_blocks.simps [simp del]

fun cbc_decrypt_blocks :: "block_cipher \<Rightarrow> bytes \<Rightarrow> bytes \<Rightarrow> bytes \<Rightarrow> bytes" where
  "cbc_decrypt_blocks D k prev cs =
     (if length cs < 16 then []
      else (let c = take 16 cs
            in xor_bytes (D k c) prev @ cbc_decrypt_blocks D k c (drop 16 cs)))"

declare cbc_decrypt_blocks.simps [simp del]

text \<open>The chaining value after the blocks \<open>cs\<close> have gone through: the last block.\<close>

definition chain_after :: "bytes \<Rightarrow> bytes \<Rightarrow> bytes" where
  "chain_after prev cs = (if length cs < 16 then prev else drop (length cs - 16) cs)"

record EVP_CIPHER_CTX =
  ctx_key :: bytes
  ctx_iv :: bytes
  ctx_buf :: bytes
  ctx_final :: "bytes option"

text \<open>
  \<open>ctx_iv\<close> is the running chaining value, \<open>ctx_buf\<close> the partial block waiting for more
  input, \<open>ctx_final\<close> the decrypted last block that \<^verbatim>\<open>EVP_DecryptUpdate\<close> holds back
  (\<^verbatim>\<open>final_used\<close>) until \<^verbatim>\<open>EVP_DecryptFinal_ex\<close> has checked its padding.
\<close>

definition EVP_CipherInit :: "bytes \<Rightarrow> bytes \<Rightarrow> EVP_CIPHER_CTX" where
  "EVP_CipherInit k v = \<lparr>ctx_key = k, ctx_iv = v, ctx_buf = [], ctx_final = None\<rparr>"

text \<open>
  The input length is passed as an \<^verbatim>\<open>int\<close>; a length that is not positive makes the
  update write nothing. Each update returns the new context and the bytes written.
\<close>

definition EVP_EncryptUpdate ::
  "block_cipher \<Rightarrow> EVP_CIPHER_CTX \<Rightarrow> bytes \<Rightarrow> EVP_CIPHER_CTX \<times> bytes" where
  "EVP_EncryptUpdate E ctx inp =
     (if int_of_size_t (length inp) \<le> 0 then (ctx, [])
      else (let d = ctx_buf ctx @ inp;
                n = 16 * (length d div 16);
                out = cbc_encrypt_blocks E (ctx_key ctx) (ctx_iv ctx) (take n d)
            in (ctx\<lparr>ctx_iv := chain_after (ctx_iv ctx) out, ctx_buf := drop n d\<rparr>, out)))"

definition pkcs7_pad :: "bytes \<Rightarrow> bytes" where
  "pkcs7_pad buf = buf @ replicate (16 - length buf) (of_nat (16 - length buf))"

definition EVP_EncryptFinal_ex :: "block_cipher \<Rightarrow> EVP_CIPHER_CTX \<Rightarrow> bytes" where
  "EVP_EncryptFinal_ex E ctx =
     E (ctx_key ctx) (xor_bytes (pkcs7_pad (ctx_buf ctx)) (ctx_iv ctx))"

definition EVP_DecryptUpdate ::
  "block_cipher \<Rightarrow> EVP_CIPHER_CTX \<Rightarrow> bytes \<Rightarrow> EVP_CIPHER_CTX \<times> bytes" where
  "EVP_DecryptUpdate D ctx inp =
     (if int_of_size_t (length inp) \<le> 0 then (ctx, [])
      else (let held = (case ctx_final ctx of None \<Rightarrow> [] | Some f \<Rightarrow> f);
                d = ctx_buf ctx @ inp;
                n = 16 * (length d div 16);
                cs = take n d;
                out = held @ cbc_decrypt_blocks D (ctx_key ctx) (ctx_iv ctx) cs;
                ctx' = ctx\<lparr>ctx_iv := chain_after (ctx_iv ctx) cs, ctx_buf := drop n d\<rparr>
            in if drop n d = []
               then (ctx'\<lparr>ctx_final := Some (drop (length out - 16) out)\<rparr>,
                     take (length out - 16) out)
               else (ctx'\<lparr>ctx_final := None\<rparr>, out)))"

text \<open>
  \<^verbatim>\<open>EVP_DecryptFinal_ex\<close> returns a success flag and the bytes written. It fails, writing
  nothing, when input is left over or no block was held back, or when the held block
  does not end in \<open>n\<close> bytes of value \<open>n\<close> for some \<open>n\<close> from 1 to 16.
\<close>

definition EVP_DecryptFinal_ex :: "EVP_CIPHER_CTX \<Rightarrow> bool \<times> bytes" where
  "EVP_DecryptFinal_ex ctx =
     (case ctx_final ctx of
        None \<Rightarrow> (False, [])
      | Some f \<Rightarrow>
          if ctx_buf ctx \<noteq> [] then (False, [])
          else (let n = unat (last f)
                in if n = 0 \<or> 16 < n then (False, [])
                   else if list_all (\<lambda>b. unat b = n) (drop (16 - n) f)
                   then (True, take (16 - n) f)
                   else (False, [])))"

subsection \<open>\<^verbatim>\<open>class Encryption\<close>\<close>

record Encryption =
  key :: bytes
  iv :: bytes

text \<open>
  \<^verbatim>\<open>Encryption::encrypt\<close>: one update, one final, the two outputs back to back. The return
  values of the EVP calls are not looked at.
\<close>

definition encrypt :: "block_cipher \<Rightarrow> Encryption \<Rightarrow> bytes \<Rightarrow> bytes" where
  "encrypt E enc plaintext =
     (let ctx = EVP_CipherInit (key enc) (iv enc);
          (ctx1, out1) = EVP_EncryptUpdate E ctx plaintext;
          out2 = EVP_EncryptFinal_ex E ctx1
      in out1 @ out2)"

text \<open>
  \<^verbatim>\<open>Encryption::decrypt\<close>: the result is a plain byte vector. The success flag of
  \<^verbatim>\<open>EVP_DecryptFinal_ex\<close> is dropped, so the caller cannot tell a failed padding check
  from a success.
\<close>

definition decrypt :: "block_cipher \<Rightarrow> Encryption \<Rightarrow> bytes \<Rightarrow> bytes" where
  "decrypt D enc ciphertext =
     (let ctx = EVP_CipherInit (key enc) (iv enc);
          (ctx1, out1) = EVP_DecryptUpdate D ctx ciphertext;
          (ok, out2) = EVP_DecryptFinal_ex ctx1
      in out1 @ out2)"

text \<open>
  A concrete block cipher for evaluating the model on explicit inputs: the block is
  XORed with the first 16 bytes of the key. It is its own inverse.
\<close>

definition xor_cipher :: block_cipher where
  "xor_cipher k b = xor_bytes b (take 16 k)"

text \<open>
  What the model asks of the block cipher under key \<open>k\<close>: blocks of 16 bytes go to
  blocks of 16 bytes, and \<open>D\<close> undoes \<open>E\<close>.
\<close>

definition block_cipher_pair :: "block_cipher \<Rightarrow> block_cipher \<Rightarrow> bytes \<Rightarrow> bool" where
  "block_cipher_pair E D k =
     (\<forall>b. length b = 16 \<longrightarrow> length (E k b) = 16 \<and> length (D k b) = 16 \<and> D k (E k b) = b)"

text \<open>Flipping bit \<open>j\<close> of byte \<open>p\<close>.\<close>

definition flip_bit_at :: "nat \<Rightarrow> nat \<Rightarrow> bytes \<Rightarrow> bytes" where
  "flip_bit_at p j c = c[p := (c ! p) XOR (push_bit j 1)]"

section \<open>Properties\<close>

subsection \<open>The checksum\<close>

lemma sum_loop_eq:
  "s < 2 ^ 64 \<Longrightarrow> sum_loop s bs = (s + sum_list (map unat bs)) mod 2 ^ 64"
proof (induction bs arbitrary: s)
  case Nil
  then show ?case by simp
next
  case (Cons b bs)
  have "sum_loop s (b # bs) = sum_loop ((s + unat b) mod 2 ^ 64) bs"
    by (simp add: size_add_def)
  also have "\<dots> = ((s + unat b) mod 2 ^ 64 + sum_list (map unat bs)) mod 2 ^ 64"
    by (rule Cons.IH) simp
  also have "\<dots> = (s + sum_list (map unat (b # bs))) mod 2 ^ 64"
    by (simp add: mod_add_left_eq add.assoc)
  finally show ?case .
qed

lemma calculateChecksum_sum:
  "calculateChecksum data = hex_of_nat (sum_list (map unat data) mod 2 ^ 64)"
  by (simp add: calculateChecksum_def sum_loop_eq)

lemma sum_list_unat_perm:
  "mset xs = mset ys \<Longrightarrow> sum_list (map unat xs) = sum_list (map unat ys)"
proof -
  assume "mset xs = mset ys"
  then have "mset (map unat xs) = mset (map unat ys)" by simp
  then have "sum_mset (mset (map unat xs)) = sum_mset (mset (map unat ys))" by simp
  then show ?thesis by (simp only: sum_mset_sum_list)
qed

text \<open>
  Claim C9. The checksum is a function of the multiset of the payload's bytes, and in
  fact of their sum alone: two byte sequences that are permutations of each other, and
  more generally two sequences with the same byte sum, get the same checksum string.
  Reordering the bytes of a stored ciphertext is therefore invisible to the checksum.
\<close>

theorem calculateChecksum_permutation_invariant:
  "(mset xs = mset ys \<longrightarrow> calculateChecksum xs = calculateChecksum ys) \<and>
   (sum_list (map unat xs) = sum_list (map unat ys) \<longrightarrow>
      calculateChecksum xs = calculateChecksum ys)"
  by (auto simp: calculateChecksum_sum dest: sum_list_unat_perm)

theorem calculateChecksum_permutation_invariant_witness:
  "mset [1, 2, 255 :: byte] = mset [255, 1, 2] \<and>
   calculateChecksum [1, 2, 255] = ''102'' \<and>
   calculateChecksum [255, 1, 2] = ''102'' \<and>
   sum_list (map unat [3, 0 :: byte]) = sum_list (map unat [1, 2 :: byte]) \<and>
   calculateChecksum [3, 0] = calculateChecksum [1, 2]"
proof -
  have p: "mset [1, 2, 255 :: byte] = mset [255, 1, 2]" by simp
  have s: "sum_list (map unat [3, 0 :: byte]) = sum_list (map unat [1, 2 :: byte])" by simp
  have a: "calculateChecksum [1, 2, 255] = ''102''"
    by (simp add: calculateChecksum_def size_add_def hex_of_nat.simps hex_digit_def)
  have "calculateChecksum [1, 2, 255] = calculateChecksum [255, 1, 2]"
    using calculateChecksum_permutation_invariant [of "[1, 2, 255]" "[255, 1, 2]"] p by blast
  moreover have "calculateChecksum [3, 0] = calculateChecksum [1, 2]"
    using calculateChecksum_permutation_invariant [of "[3, 0]" "[1, 2]"] s by blast
  ultimately show ?thesis using p s a by simp
qed

end
